theory Spec2Isabelle
  imports Main
begin

section \<open>The content-routing facade of src/core/components/dht.js\<close>

text \<open>
  The module exports a function of the node (\<open>self\<close>) that returns the six DHT
  operations. Every operation is written in continuation style: it ends by handing an
  error or a value to a completion callback, or it never does. The model makes both
  visible: the sequence of calls made on the collaborators (local block store, DHT
  engine) and what happened to the completion callback.
\<close>

subsection \<open>Values\<close>

type_synonym cid = string
type_synonym peer_id = string
type_synonym multiaddr = string
type_synonym buffer = string

text \<open>Error objects handed to a callback: those of the two collaborators, and the one
  the facade creates itself with \<open>new Error(message)\<close>.\<close>

datatype error = StoreError string | EngineError string | Error string

text \<open>Exceptions of the language itself, thrown instead of calling any callback.\<close>

datatype exn = ReferenceError string | TypeError string

text \<open>A function value, known by its identity.\<close>

datatype fn = Fn nat

text \<open>The values a property such as \<open>options.recursive\<close> may hold, and the test
  \<open>if (v)\<close> on them.\<close>

datatype jsval = JUndefined | JNull | JBool bool | JNum int | JStr string

fun truthy :: "jsval \<Rightarrow> bool" where
  "truthy JUndefined = False"
| "truthy JNull = False"
| "truthy (JBool b) = b"
| "truthy (JNum n) = (n \<noteq> 0)"
| "truthy (JStr s) = (s \<noteq> [])"

text \<open>The first argument of \<open>provide\<close>: one CID or an array of CIDs.\<close>

datatype keys_arg = OneKey cid | KeyArray "cid list"

text \<open>The second argument of \<open>provide\<close>: an options object, the callback itself when the
  options are left out, or \<open>undefined\<close>.\<close>

record options =
  recursive :: jsval

datatype options_arg = OptObject options | OptFunction fn | OptUndefined

subsection \<open>Collaborators\<close>

text \<open>Modelled from the spec: the record returned by the engine's peer lookup (package
  peer-info, not part of this repository's sources) carries an address collection that
  \<open>toArray\<close> flattens to a plain ordered sequence.\<close>

datatype multiaddr_set = MultiaddrSet "multiaddr list"

fun toArray :: "multiaddr_set \<Rightarrow> multiaddr list" where
  "toArray (MultiaddrSet addrs) = addrs"

record peer_info =
  multiaddrs :: multiaddr_set

text \<open>The node: \<open>self.repo.blockstore\<close> and \<open>self.libp2p.dht\<close>. Each asynchronous
  collaborator function is given by what it hands to its callback: an error, or a value.\<close>

record node =
  blockstore_has :: "cid \<Rightarrow> error + bool"
  dht_findPeer :: "peer_id \<Rightarrow> error + peer_info"
  dht_get :: "buffer \<Rightarrow> error + buffer"
  dht_provide :: "cid \<Rightarrow> error option"

datatype call = BlockstoreHas cid | DhtFindPeer peer_id | DhtGet buffer | DhtProvide cid

subsection \<open>Outcomes\<close>

datatype 'v outcome =
    Succeeded fn 'v
  | Failed fn error
  | Thrown exn
  | Pending

record 'v result =
  calls :: "call list"
  outcome :: "'v outcome"

text \<open>\<open>callback(err)\<close> and \<open>callback(null)\<close> at a place where \<open>callback\<close> may be
  \<open>undefined\<close>: calling \<open>undefined\<close> throws.\<close>

definition invoke :: "fn option \<Rightarrow> error option \<Rightarrow> unit outcome" where
  "invoke callback err =
     (case callback of
        None \<Rightarrow> Thrown (TypeError ''callback is not a function'')
      | Some f \<Rightarrow> (case err of None \<Rightarrow> Succeeded f () | Some e \<Rightarrow> Failed f e))"

text \<open>A collaborator that was given \<open>callback\<close> calls \<open>callback(err)\<close> or
  \<open>callback(null, value)\<close>.\<close>

definition deliver :: "fn \<Rightarrow> error + 'v \<Rightarrow> 'v outcome" where
  "deliver callback r = (case r of Inl err \<Rightarrow> Failed callback err | Inr v \<Rightarrow> Succeeded callback v)"

subsection \<open>The fan-out helpers\<close>

text \<open>Modelled from the spec: \<open>every\<close> and \<open>each\<close> of package async (not part of this
  repository's sources) launch one sub-task per element and join with all-of semantics;
  a single failure anywhere fails the whole. The sub-tasks are taken to complete in the
  order of the collection, and the first failure observed is the one reported.
  \<open>every\<close> hands \<open>(err)\<close> or \<open>(null, allTrue)\<close> to its final callback; the result of an
  empty collection is \<open>true\<close>.\<close>

fun every_join :: "(error + bool) list \<Rightarrow> error + bool" where
  "every_join [] = Inr True"
| "every_join (Inl err # rs) = Inl err"
| "every_join (Inr b # rs) = (if b then every_join rs else Inr False)"

definition every ::
  "'a list \<Rightarrow> ('a \<Rightarrow> call list \<times> (error + bool)) \<Rightarrow> call list \<times> (error + bool)" where
  "every coll iteratee =
     (concat (map (\<lambda>x. fst (iteratee x)) coll), every_join (map (\<lambda>x. snd (iteratee x)) coll))"

text \<open>Modelled from the spec: \<open>each\<close> hands \<open>(err)\<close> or \<open>(null)\<close> to its final callback,
  which is optional: without one, nothing is called.\<close>

fun each_join :: "error option list \<Rightarrow> error option" where
  "each_join [] = None"
| "each_join (Some err # rs) = Some err"
| "each_join (None # rs) = each_join rs"

definition each ::
  "'a list \<Rightarrow> ('a \<Rightarrow> call list \<times> error option) \<Rightarrow> fn option \<Rightarrow> unit result" where
  "each coll iteratee callback =
     \<lparr>calls = concat (map (\<lambda>x. fst (iteratee x)) coll),
      outcome = (case callback of
                   None \<Rightarrow> Pending
                 | Some f \<Rightarrow> invoke (Some f) (each_join (map (\<lambda>x. snd (iteratee x)) coll)))\<rparr>"

subsection \<open>findpeer and get\<close>

definition findpeer :: "node \<Rightarrow> peer_id \<Rightarrow> fn \<Rightarrow> multiaddr list result" where
  "findpeer self peer callback =
     \<lparr>calls = [DhtFindPeer peer],
      outcome = (case dht_findPeer self peer of
                   Inl err \<Rightarrow> Failed callback err
                 | Inr info \<Rightarrow> Succeeded callback (toArray (multiaddrs info)))\<rparr>"

definition get :: "node \<Rightarrow> buffer \<Rightarrow> fn \<Rightarrow> buffer result" where
  "get self key callback =
     \<lparr>calls = [DhtGet key], outcome = deliver callback (dht_get self key)\<rparr>"

subsection \<open>provide\<close>

text \<open>The read of \<open>options.recursive\<close>: a property read on \<open>undefined\<close> throws; a
  function object has no such property.\<close>

fun get_recursive :: "options_arg \<Rightarrow> exn + jsval" where
  "get_recursive (OptObject opts) = Inr (recursive opts)"
| "get_recursive (OptFunction f) = Inr JUndefined"
| "get_recursive OptUndefined = Inl (TypeError ''Cannot read property recursive of undefined'')"

text \<open>Lines 80 to 82: a single key becomes a one-element array.\<close>

fun array_of_keys :: "keys_arg \<Rightarrow> cid list" where
  "array_of_keys (OneKey k) = [k]"
| "array_of_keys (KeyArray ks) = ks"

text \<open>Lines 83 to 86: a function in the options slot is the callback, and the options
  become the empty object.\<close>

fun shift_callback :: "options_arg \<Rightarrow> fn option \<Rightarrow> options_arg \<times> fn option" where
  "shift_callback (OptFunction f) callback = (OptObject \<lparr>recursive = JUndefined\<rparr>, Some f)"
| "shift_callback options callback = (options, callback)"

text \<open>
  \<open>provide\<close> takes \<open>(keys, options, callback)\<close>; the third argument is \<open>undefined\<close> (here
  \<open>None\<close>) when the caller left the options out.

  Line 102 iterates over \<open>cids\<close>, a name that the module binds nowhere (the parameter is
  called \<open>keys\<close>): it is looked up in the global object. The parameter \<open>cids\<close> of the
  model is that binding, \<open>None\<close> when the global object has no such property, which is
  the case unless the embedding program creates one; reading the name then throws a
  ReferenceError.
\<close>

definition provide ::
  "node \<Rightarrow> cid list option \<Rightarrow> keys_arg \<Rightarrow> options_arg \<Rightarrow> fn option \<Rightarrow> unit result" where
  "provide self cids keys0 options0 callback0 =
     (let keys = array_of_keys keys0;
          (options, callback) = shift_callback options0 callback0;
          (checks, verdict) = every keys (\<lambda>key. ([BlockstoreHas key], blockstore_has self key))
      in case verdict of
           Inl err \<Rightarrow> \<lparr>calls = checks, outcome = invoke callback (Some err)\<rparr>
         | Inr has \<Rightarrow>
             if \<not> has then
               \<lparr>calls = checks,
                outcome = invoke callback
                            (Some (Error ''Not all blocks exist locally, can not provide''))\<rparr>
             else
               (case get_recursive options of
                  Inl ex \<Rightarrow> \<lparr>calls = checks, outcome = Thrown ex\<rparr>
                | Inr r \<Rightarrow>
                    if truthy r then \<lparr>calls = checks, outcome = Pending\<rparr>
                    else
                      (case cids of
                         None \<Rightarrow> \<lparr>calls = checks, outcome = Thrown (ReferenceError ''cids'')\<rparr>
                       | Some cs \<Rightarrow>
                           (let announce = each cs (\<lambda>cid. ([DhtProvide cid], dht_provide self cid))
                                             callback
                            in \<lparr>calls = checks @ calls announce, outcome = outcome announce\<rparr>))))"

subsection \<open>Concrete nodes\<close>

text \<open>A node whose block store holds exactly the given blocks and never fails, and whose
  engine answers announcements as given; its lookups find nothing.\<close>

definition node_with :: "cid list \<Rightarrow> (cid \<Rightarrow> error option) \<Rightarrow> node" where
  "node_with blocks announce =
     \<lparr>blockstore_has = (\<lambda>k. Inr (k \<in> set blocks)),
      dht_findPeer = (\<lambda>p. Inl (EngineError ''peer not found'')),
      dht_get = (\<lambda>k. Inl (EngineError ''key not found'')),
      dht_provide = announce\<rparr>"

text \<open>A node as the previous one with a silent engine, except that the store's check of
  the one block \<open>bad\<close> reports a read error.\<close>

definition node_with_faulty_store :: "cid \<Rightarrow> cid list \<Rightarrow> node" where
  "node_with_faulty_store bad blocks =
     \<lparr>blockstore_has = (\<lambda>k. if k = bad then Inl (StoreError ''disk'') else Inr (k \<in> set blocks)),
      dht_findPeer = (\<lambda>p. Inl (EngineError ''peer not found'')),
      dht_get = (\<lambda>k. Inl (EngineError ''key not found'')),
      dht_provide = (\<lambda>c. None)\<rparr>"

text \<open>A node whose engine knows the given peer records and key/value pairs.\<close>

definition node_knowing :: "(peer_id \<rightharpoonup> peer_info) \<Rightarrow> (buffer \<rightharpoonup> buffer) \<Rightarrow> node" where
  "node_knowing peers kv =
     \<lparr>blockstore_has = (\<lambda>k. Inr False),
      dht_findPeer = (\<lambda>p. case peers p of None \<Rightarrow> Inl (EngineError ''peer not found'')
                                        | Some info \<Rightarrow> Inr info),
      dht_get = (\<lambda>k. case kv k of None \<Rightarrow> Inl (EngineError ''key not found'')
                                 | Some v \<Rightarrow> Inr v),
      dht_provide = (\<lambda>c. None)\<rparr>"

section \<open>Properties\<close>

subsection \<open>The joins\<close>

lemma every_has:
  "every keys (\<lambda>key. ([BlockstoreHas key], h key)) =
     (map BlockstoreHas keys, every_join (map h keys))"
  by (simp add: every_def)

lemma every_join_all_true: "\<forall>r \<in> set rs. r = Inr True \<Longrightarrow> every_join rs = Inr True"
  by (induction rs) auto

lemma every_join_some_false:
  "Inr False \<in> set rs \<Longrightarrow> \<forall>e. Inl e \<notin> set rs \<Longrightarrow> every_join rs = Inr False"
  by (induction rs rule: every_join.induct) auto

lemma every_join_true_iff: "every_join rs = Inr True \<longleftrightarrow> (\<forall>r \<in> set rs. r = Inr True)"
  by (induction rs rule: every_join.induct) auto

lemma each_join_none_iff: "each_join rs = None \<longleftrightarrow> (\<forall>r \<in> set rs. r = None)"
  by (induction rs rule: each_join.induct) auto

lemma every_join_error_mem: "every_join rs = Inl err \<Longrightarrow> Inl err \<in> set rs"
  by (induction rs rule: every_join.induct) (auto split: if_splits)


lemma each_provide:
  "each cs (\<lambda>cid. ([DhtProvide cid], p cid)) (Some f) =
     \<lparr>calls = map DhtProvide cs, outcome = invoke (Some f) (each_join (map p cs))\<rparr>"
  by (simp add: each_def)

subsection \<open>What provide does once every block is local\<close>

lemma provide_all_local:
  assumes "\<forall>k \<in> set (array_of_keys keys0). blockstore_has self k = Inr True"
    and "shift_callback options0 callback0 = (options, callback)"
  shows "provide self cids keys0 options0 callback0 =
     (case get_recursive options of
        Inl ex \<Rightarrow> \<lparr>calls = map BlockstoreHas (array_of_keys keys0), outcome = Thrown ex\<rparr>
      | Inr r \<Rightarrow>
          if truthy r then \<lparr>calls = map BlockstoreHas (array_of_keys keys0), outcome = Pending\<rparr>
          else
            (case cids of
               None \<Rightarrow> \<lparr>calls = map BlockstoreHas (array_of_keys keys0),
                         outcome = Thrown (ReferenceError ''cids'')\<rparr>
             | Some cs \<Rightarrow>
                 (let announce = each cs (\<lambda>cid. ([DhtProvide cid], dht_provide self cid)) callback
                  in \<lparr>calls = map BlockstoreHas (array_of_keys keys0) @ calls announce,
                      outcome = outcome announce\<rparr>)))"
proof -
  have "every_join (map (blockstore_has self) (array_of_keys keys0)) = Inr True"
    using assms(1) by (intro every_join_all_true) auto
  then show ?thesis
    using assms(2) by (simp add: provide_def every_has Let_def)
qed

text \<open>Had line 102 named the parameter (the global \<open>cids\<close> bound to the very array of
  keys), the fan-out would announce each key once and succeed exactly when every
  announcement does.\<close>

lemma provide_if_cids_were_keys:
  assumes "\<forall>k \<in> set ks. blockstore_has self k = Inr True"
  shows "calls (provide self (Some ks) (KeyArray ks) (OptObject \<lparr>recursive = JBool False\<rparr>) (Some f))
           = map BlockstoreHas ks @ map DhtProvide ks
       \<and> (outcome (provide self (Some ks) (KeyArray ks) (OptObject \<lparr>recursive = JBool False\<rparr>) (Some f))
            = Succeeded f () \<longleftrightarrow> (\<forall>k \<in> set ks. dht_provide self k = None))"
proof -
  have "provide self (Some ks) (KeyArray ks) (OptObject \<lparr>recursive = JBool False\<rparr>) (Some f) =
          \<lparr>calls = map BlockstoreHas ks @ map DhtProvide ks,
           outcome = invoke (Some f) (each_join (map (dht_provide self) ks))\<rparr>"
    using assms
    by (subst provide_all_local [where options = "OptObject \<lparr>recursive = JBool False\<rparr>"
          and callback = "Some f"]) (simp_all add: each_provide)
  moreover have "invoke (Some f) (each_join (map (dht_provide self) ks)) = Succeeded f ()
                   \<longleftrightarrow> each_join (map (dht_provide self) ks) = None"
    by (simp add: invoke_def split: option.splits)
  ultimately show ?thesis
    by (simp add: each_join_none_iff)
qed

subsection \<open>The local-availability gate\<close>

text \<open>
  C2. Whenever at least one of the given identifiers is absent from the local store, the
  only calls \<open>provide\<close> makes are the local checks, so the engine's announce call is
  made for no identifier, and \<open>provide\<close> hands an error to the completion callback: the
  error "Not all blocks exist locally, can not provide" when no local check reports an
  error of its own, and otherwise either that error or the error that one of the local
  checks reported.
\<close>

theorem provide_absent_block_fails_without_announcing:
  assumes "k \<in> set (array_of_keys keys0)"
    and "blockstore_has self k = Inr False"
  shows "calls (provide self cids keys0 options0 callback0)
           = map BlockstoreHas (array_of_keys keys0)
       \<and> (\<forall>c. DhtProvide c \<notin> set (calls (provide self cids keys0 options0 callback0)))
       \<and> (\<exists>e. outcome (provide self cids keys0 options0 callback0)
                 = invoke (snd (shift_callback options0 callback0)) (Some e)
              \<and> (\<forall>f. snd (shift_callback options0 callback0) = Some f
                    \<longrightarrow> outcome (provide self cids keys0 options0 callback0) = Failed f e)
              \<and> (e = Error ''Not all blocks exist locally, can not provide''
                  \<or> (\<exists>k' \<in> set (array_of_keys keys0). blockstore_has self k' = Inl e)))
       \<and> ((\<forall>k' \<in> set (array_of_keys keys0). \<forall>e. blockstore_has self k' \<noteq> Inl e)
          \<longrightarrow> outcome (provide self cids keys0 options0 callback0)
                = invoke (snd (shift_callback options0 callback0))
                    (Some (Error ''Not all blocks exist locally, can not provide'')))"
proof -
  let ?rs = "map (blockstore_has self) (array_of_keys keys0)"
  let ?checks = "map BlockstoreHas (array_of_keys keys0)"
  let ?cb = "snd (shift_callback options0 callback0)"
  let ?gate = "Error ''Not all blocks exist locally, can not provide''"
  let ?run = "provide self cids keys0 options0 callback0"
  define e where "e = (case every_join ?rs of Inl err \<Rightarrow> err | Inr has \<Rightarrow> ?gate)"
  have absent: "Inr False \<in> set ?rs"
    using assms by (metis image_eqI set_map)
  have not_all: "every_join ?rs \<noteq> Inr True"
  proof
    assume "every_join ?rs = Inr True"
    then have "\<forall>r \<in> set ?rs. r = Inr True"
      by (simp only: every_join_true_iff)
    with absent have "Inr False = (Inr True :: error + bool)"
      by blast
    then show False by simp
  qed
  have shape: "?run = \<lparr>calls = ?checks, outcome = invoke ?cb (Some e)\<rparr>"
  proof (cases "every_join ?rs")
    case (Inl err)
    then show ?thesis
      by (simp add: provide_def every_has split_def e_def)
  next
    case (Inr has)
    with not_all have "\<not> has" by simp
    with Inr show ?thesis
      by (simp add: provide_def every_has split_def e_def)
  qed
  have failed: "outcome ?run = Failed f e" if "?cb = Some f" for f
    using that shape by (simp add: invoke_def)
  have which: "e = ?gate \<or> (\<exists>k' \<in> set (array_of_keys keys0). blockstore_has self k' = Inl e)"
  proof (cases "every_join ?rs")
    case (Inl err)
    then have "Inl err \<in> set ?rs"
      by (rule every_join_error_mem)
    then have "\<exists>k' \<in> set (array_of_keys keys0). blockstore_has self k' = Inl err"
      by (metis imageE set_map)
    with Inl show ?thesis by (simp add: e_def)
  next
    case (Inr has)
    then show ?thesis by (simp add: e_def)
  qed
  have gate: "outcome ?run = invoke ?cb (Some ?gate)"
    if answers: "\<forall>k' \<in> set (array_of_keys keys0). \<forall>e. blockstore_has self k' \<noteq> Inl e"
  proof -
    have "\<forall>e. Inl e \<notin> set ?rs"
      using answers by (metis imageE set_map)
    with absent have "every_join ?rs = Inr False"
      by (rule every_join_some_false)
    with shape show ?thesis
      by (simp add: e_def)
  qed
  have "calls ?run = ?checks"
    using shape by simp
  moreover have "\<forall>c. DhtProvide c \<notin> set (calls ?run)"
    using shape by auto
  moreover have "\<exists>e. outcome ?run = invoke ?cb (Some e)
                   \<and> (\<forall>f. ?cb = Some f \<longrightarrow> outcome ?run = Failed f e)
                   \<and> (e = ?gate \<or> (\<exists>k' \<in> set (array_of_keys keys0). blockstore_has self k' = Inl e))"
    using shape failed which by (intro exI [of _ e]) simp
  ultimately show ?thesis
    using gate by blast
qed

theorem provide_absent_block_fails_without_announcing_witness:
  "''B'' \<in> set (array_of_keys (KeyArray [''A'', ''B'']))
   \<and> blockstore_has (node_with [''A''] (\<lambda>c. None)) ''B'' = Inr False
   \<and> outcome (provide (node_with [''A''] (\<lambda>c. None)) None (KeyArray [''A'', ''B''])
                (OptFunction (Fn 7)) None)
       = Failed (Fn 7) (Error ''Not all blocks exist locally, can not provide'')
   \<and> calls (provide (node_with [''A''] (\<lambda>c. None)) None (KeyArray [''A'', ''B''])
              (OptFunction (Fn 7)) None)
       = [BlockstoreHas ''A'', BlockstoreHas ''B'']"
  using provide_absent_block_fails_without_announcing
    [where k = "''B''" and ?keys0.0 = "KeyArray [''A'', ''B'']"
       and self = "node_with [''A''] (\<lambda>c. None)" and cids = None
       and ?options0.0 = "OptFunction (Fn 7)" and ?callback0.0 = None]
  by (simp add: node_with_def invoke_def)

text \<open>
  The error is not always the local-availability error. At a node whose store lacks B
  and reports a read error for A, \<open>provide([A, B], {}, callback)\<close> hands the store's
  error to the callback (lines 92 to 94 come before the test of line 95).
\<close>

theorem provide_absent_block_store_error_counterexample:
  "''B'' \<in> set (array_of_keys (KeyArray [''A'', ''B'']))
   \<and> blockstore_has (node_with_faulty_store ''A'' []) ''B'' = Inr False
   \<and> outcome (provide (node_with_faulty_store ''A'' []) None (KeyArray [''A'', ''B''])
                (OptObject \<lparr>recursive = JUndefined\<rparr>) (Some (Fn 1)))
       = Failed (Fn 1) (StoreError ''disk'')
   \<and> outcome (provide (node_with_faulty_store ''A'' []) None (KeyArray [''A'', ''B''])
                (OptObject \<lparr>recursive = JUndefined\<rparr>) (Some (Fn 1)))
       \<noteq> Failed (Fn 1) (Error ''Not all blocks exist locally, can not provide'')"
  by (simp add: provide_def every_def node_with_faulty_store_def invoke_def)

subsection \<open>Argument normalisation\<close>

text \<open>
  C6. For every content identifier, options argument and callback, \<open>provide\<close> called with
  the single identifier gives the same outcome and the same sequence of local-store and
  engine calls as \<open>provide\<close> called with the one-element array holding it.
\<close>

theorem provide_single_key_is_singleton_array:
  "provide self cids (OneKey k) options callback
     = provide self cids (KeyArray [k]) options callback"
  by (simp add: provide_def)



subsection \<open>The recursive branch\<close>

text \<open>
  C10. When \<open>provide\<close> is called with an options object whose \<open>recursive\<close> is truthy and
  every given identifier is present locally, the calls made are the local checks alone:
  the engine's announce call is never made, and the completion callback is never
  called, neither with success nor with an error.
\<close>

theorem provide_recursive_never_completes:
  assumes "\<forall>k \<in> set (array_of_keys keys0). blockstore_has self k = Inr True"
    and "truthy (recursive opts)"
  shows "provide self cids keys0 (OptObject opts) callback0
           = \<lparr>calls = map BlockstoreHas (array_of_keys keys0), outcome = Pending\<rparr>
       \<and> (\<forall>c. DhtProvide c \<notin> set (calls (provide self cids keys0 (OptObject opts) callback0)))"
proof -
  have "provide self cids keys0 (OptObject opts) callback0
          = \<lparr>calls = map BlockstoreHas (array_of_keys keys0), outcome = Pending\<rparr>"
    using assms
    by (subst provide_all_local [where options = "OptObject opts" and callback = callback0])
       simp_all
  then show ?thesis by auto
qed

theorem provide_recursive_never_completes_witness:
  "blockstore_has (node_with [''A'', ''B''] (\<lambda>c. None)) ''A'' = Inr True
   \<and> blockstore_has (node_with [''A'', ''B''] (\<lambda>c. None)) ''B'' = Inr True
   \<and> truthy (recursive \<lparr>recursive = JBool True\<rparr>)
   \<and> provide (node_with [''A'', ''B''] (\<lambda>c. None)) None (KeyArray [''A'', ''B''])
        (OptObject \<lparr>recursive = JBool True\<rparr>) (Some (Fn 3))
       = \<lparr>calls = [BlockstoreHas ''A'', BlockstoreHas ''B''], outcome = Pending\<rparr>"
  using provide_recursive_never_completes
    [of "KeyArray [''A'', ''B'']" "node_with [''A'', ''B''] (\<lambda>c. None)"
        "\<lparr>recursive = JBool True\<rparr>" None "Some (Fn 3)"]
  by (simp add: node_with_def)

text \<open>
  C3. The documentation of \<open>options.recursive\<close> promises that the objects linked from the
  given one are provided too. At a node holding block A, \<open>provide([A], {recursive: true})\<close>
  checks A locally and stops there: nothing is announced, not even A itself, and the
  callback is never called.
\<close>

theorem provide_recursive_announces_nothing:
  "provide (node_with [''A''] (\<lambda>c. None)) None (KeyArray [''A''])
      (OptObject \<lparr>recursive = JBool True\<rparr>) (Some (Fn 0))
     = \<lparr>calls = [BlockstoreHas ''A''], outcome = Pending\<rparr>"
  by (simp add: provide_def every_def node_with_def)

subsection \<open>The announce fan-out\<close>

text \<open>
  C1. At a node holding blocks A and B whose engine accepts every announcement,
  \<open>provide([A, B], {})\<close> checks both blocks locally and then throws a ReferenceError on
  the unbound name \<open>cids\<close>: the engine's provide is called for neither identifier and
  the callback is never called, where one announce call per identifier and a
  successful completion were due.
\<close>

theorem provide_local_blocks_throws:
  "provide (node_with [''A'', ''B''] (\<lambda>c. None)) None (KeyArray [''A'', ''B''])
      (OptObject \<lparr>recursive = JUndefined\<rparr>) (Some (Fn 0))
     = \<lparr>calls = [BlockstoreHas ''A'', BlockstoreHas ''B''],
        outcome = Thrown (ReferenceError ''cids'')\<rparr>"
  by (simp add: provide_def every_def node_with_def)

text \<open>
  C4. \<open>provide([], callback)\<close> makes no call at all and throws the same ReferenceError
  instead of completing successfully.
\<close>

theorem provide_empty_throws:
  "provide (node_with [] (\<lambda>c. None)) None (KeyArray []) (OptFunction (Fn 0)) None
     = \<lparr>calls = [], outcome = Thrown (ReferenceError ''cids'')\<rparr>"
  by (simp add: provide_def every_def node_with_def)



subsection \<open>The delegating operations\<close>

text \<open>
  C7. For every peer whose record the engine finds, \<open>findpeer\<close> makes that one engine call
  and completes successfully with the addresses of the record as a plain sequence, in
  their order; for a record without addresses this is the empty sequence and not an
  error.
\<close>

theorem findpeer_flattens_addresses:
  assumes "dht_findPeer self peer = Inr info"
    and "multiaddrs info = MultiaddrSet addrs"
  shows "findpeer self peer callback
           = \<lparr>calls = [DhtFindPeer peer], outcome = Succeeded callback addrs\<rparr>"
  using assms by (simp add: findpeer_def)

theorem findpeer_flattens_addresses_witness:
  "dht_findPeer (node_knowing [''QmPeer'' \<mapsto> \<lparr>multiaddrs = MultiaddrSet []\<rparr>] Map.empty) ''QmPeer''
     = Inr \<lparr>multiaddrs = MultiaddrSet []\<rparr>
   \<and> multiaddrs \<lparr>multiaddrs = MultiaddrSet []\<rparr> = MultiaddrSet []
   \<and> findpeer (node_knowing [''QmPeer'' \<mapsto> \<lparr>multiaddrs = MultiaddrSet []\<rparr>] Map.empty)
        ''QmPeer'' (Fn 1)
       = \<lparr>calls = [DhtFindPeer ''QmPeer''], outcome = Succeeded (Fn 1) []\<rparr>"
  using findpeer_flattens_addresses
    [of "node_knowing [''QmPeer'' \<mapsto> \<lparr>multiaddrs = MultiaddrSet []\<rparr>] Map.empty" "''QmPeer''"
        "\<lparr>multiaddrs = MultiaddrSet []\<rparr>" "[]" "Fn 1"]
  by (simp add: node_knowing_def)

text \<open>
  C8. For every key, \<open>get\<close> makes exactly the engine's key lookup and completes with what
  the engine hands back: the engine's value, unchanged, when the lookup succeeds, and the
  engine's error when it fails.
\<close>

theorem get_is_engine_get:
  "get self key callback
     = \<lparr>calls = [DhtGet key],
        outcome = (case dht_get self key of
                     Inl err \<Rightarrow> Failed callback err
                   | Inr v \<Rightarrow> Succeeded callback v)\<rparr>"
  by (simp add: get_def deliver_def)

theorem get_is_engine_get_witness:
  "get (node_knowing Map.empty [''/foo/bar'' \<mapsto> ''hello'']) ''/foo/bar'' (Fn 2)
     = \<lparr>calls = [DhtGet ''/foo/bar''], outcome = Succeeded (Fn 2) ''hello''\<rparr>
   \<and> get (node_knowing Map.empty [''/foo/bar'' \<mapsto> ''hello'']) ''/foo/baz'' (Fn 2)
     = \<lparr>calls = [DhtGet ''/foo/baz''], outcome = Failed (Fn 2) (EngineError ''key not found'')\<rparr>"
  using get_is_engine_get [of "node_knowing Map.empty [''/foo/bar'' \<mapsto> ''hello'']" "''/foo/bar''" "Fn 2"]
        get_is_engine_get [of "node_knowing Map.empty [''/foo/bar'' \<mapsto> ''hello'']" "''/foo/baz''" "Fn 2"]
  by (simp add: node_knowing_def)

end
